theory Spec2Isabelle
  imports Complex_Main
begin

section \<open>SHT4xI analog conversion routines\<close>

text \<open>
  A shallow embedding of \<^verbatim>\<open>src/main.c\<close>, \<^verbatim>\<open>src/utilities.c\<close> and
  \<^verbatim>\<open>src/utilities-config.h\<close>. A C \<^verbatim>\<open>double\<close> is read as a real number: the
  arithmetic is the exact one, rounding, infinities and NaN are not part of the model.
  In particular \<open>x / 0\<close> is \<open>0\<close> in HOL where the C division gives an infinity or NaN,
  so a statement about the value of a quotient carries the hypothesis that the divisor is
  not zero.
\<close>

subsection \<open>utilities-config.h: constants and indices\<close>

definition kSensorCalibrationConstant1 :: real where
  "kSensorCalibrationConstant1 = - 12.5"

definition kSensorCalibrationConstant2 :: real where
  "kSensorCalibrationConstant2 = 125"

definition kSensorCalibrationConstant3 :: real where
  "kSensorCalibrationConstant3 = - 66.875"

definition kSensorCalibrationConstant4 :: real where
  "kSensorCalibrationConstant4 = 218.75"

definition kSensorCalibrationConstant5 :: real where
  "kSensorCalibrationConstant5 = - 88.375"

definition kSensorCalibrationConstant6 :: real where
  "kSensorCalibrationConstant6 = 393.75"

definition kDefaultInputDistributionVtUniformDistLow :: real where
  "kDefaultInputDistributionVtUniformDistLow = 2.3"

definition kDefaultInputDistributionVtUniformDistHigh :: real where
  "kDefaultInputDistributionVtUniformDistHigh = 2.7"

definition kDefaultInputDistributionVrhUniformDistLow :: real where
  "kDefaultInputDistributionVrhUniformDistLow = 2.3"

definition kDefaultInputDistributionVrhUniformDistHigh :: real where
  "kDefaultInputDistributionVrhUniformDistHigh = 2.7"

definition kDefaultInputDistributionVsupplyUniformDistLow :: real where
  "kDefaultInputDistributionVsupplyUniformDistLow = 4.8"

definition kDefaultInputDistributionVsupplyUniformDistHigh :: real where
  "kDefaultInputDistributionVsupplyUniformDistHigh = 5.4"

text \<open>The enum \<^verbatim>\<open>InputDistributionIndex\<close>: array indices, with the count last.\<close>

definition kInputDistributionIndexVrh :: nat where
  "kInputDistributionIndexVrh = 0"

definition kInputDistributionIndexVt :: nat where
  "kInputDistributionIndexVt = 1"

definition kInputDistributionIndexVsupply :: nat where
  "kInputDistributionIndexVsupply = 2"

definition kInputDistributionIndexMax :: nat where
  "kInputDistributionIndexMax = 3"

text \<open>The enum \<^verbatim>\<open>OutputDistributionIndex\<close>; its count doubles as the selector "all".\<close>

definition kOutputDistributionIndexCalibratedRelativeHumidity :: nat where
  "kOutputDistributionIndexCalibratedRelativeHumidity = 0"

definition kOutputDistributionIndexCalibratedTemperatureCelcius :: nat where
  "kOutputDistributionIndexCalibratedTemperatureCelcius = 1"

definition kOutputDistributionIndexCalibratedTemperatureFahrenheit :: nat where
  "kOutputDistributionIndexCalibratedTemperatureFahrenheit = 2"

definition kOutputDistributionIndexMax :: nat where
  "kOutputDistributionIndexMax = 3"

subsection \<open>utilities.h: command line arguments\<close>

text \<open>
  \<^verbatim>\<open>CommonCommandLineArguments\<close> is declared in \<^verbatim>\<open>common.h\<close>, which is not among the
  sources; the record has the fields that \<^verbatim>\<open>main.c\<close> and \<^verbatim>\<open>utilities.c\<close> read or
  write. \<^verbatim>\<open>outputSelect\<close> and \<^verbatim>\<open>numberOfMonteCarloIterations\<close> are unsigned sizes,
  read as natural numbers.
\<close>

record CommonCommandLineArguments =
  outputFilePath :: string
  isInputFromFileEnabled :: bool
  isWriteToFileEnabled :: bool
  isOutputJSONMode :: bool
  isHelpEnabled :: bool
  isTimingEnabled :: bool
  isBenchmarkingMode :: bool
  isMonteCarloMode :: bool
  isOutputSelected :: bool
  outputSelect :: nat
  numberOfMonteCarloIterations :: nat

record CommandLineArguments =
  common :: CommonCommandLineArguments

subsection \<open>main.c: calculateSensorOutput\<close>

text \<open>
  The state of one call: the local \<^verbatim>\<open>calibratedValue\<close>, the array behind the pointer
  \<^verbatim>\<open>outputDistributions\<close>, and the stores made to that array so far, in program order
  (index and value). The last component is a trace of the effect, kept to state which
  store came last.
\<close>

record calculation =
  calibratedValue :: real
  outputArray :: "real list"
  storeLog :: "(nat \<times> real) list"

text \<open>The chained assignment \<^verbatim>\<open>calibratedValue = outputDistributions[i] = v\<close>.\<close>

definition assignOutput :: "nat \<Rightarrow> real \<Rightarrow> calculation \<Rightarrow> calculation" where
  "assignOutput i v st =
     st\<lparr>calibratedValue := v,
        outputArray := (outputArray st)[i := v],
        storeLog := storeLog st @ [(i, v)]\<rparr>"

definition calculateSensorOutput ::
  "CommandLineArguments \<Rightarrow> real list \<Rightarrow> real list \<Rightarrow> calculation" where
  "calculateSensorOutput arguments inputDistributions outputDistributions =
     (let st0 = \<lparr>calibratedValue = 0, outputArray = outputDistributions, storeLog = []\<rparr>;
          Vsupply = inputDistributions ! kInputDistributionIndexVsupply;
          Vt = inputDistributions ! kInputDistributionIndexVt;
          Vrh = inputDistributions ! kInputDistributionIndexVrh;
          calculateAllOutputs =
            (outputSelect (common arguments) = kOutputDistributionIndexMax);
          st1 =
            (if calculateAllOutputs \<or>
                outputSelect (common arguments) =
                  kOutputDistributionIndexCalibratedRelativeHumidity
             then assignOutput kOutputDistributionIndexCalibratedRelativeHumidity
                    (kSensorCalibrationConstant1 +
                     kSensorCalibrationConstant2 * (Vrh / Vsupply)) st0
             else st0);
          st2 =
            (if calculateAllOutputs \<or>
                outputSelect (common arguments) =
                  kOutputDistributionIndexCalibratedTemperatureCelcius
             then assignOutput kOutputDistributionIndexCalibratedTemperatureCelcius
                    (kSensorCalibrationConstant3 +
                     kSensorCalibrationConstant4 * (Vt / Vsupply)) st1
             else st1);
          st3 =
            (if calculateAllOutputs \<or>
                outputSelect (common arguments) =
                  kOutputDistributionIndexCalibratedTemperatureFahrenheit
             then assignOutput kOutputDistributionIndexCalibratedTemperatureFahrenheit
                    (kSensorCalibrationConstant5 +
                     kSensorCalibrationConstant6 * (Vt / Vsupply)) st2
             else st2)
      in st3)"

text \<open>
  \<^verbatim>\<open>setDefaultCommandLineArguments\<close> of \<^verbatim>\<open>utilities.c\<close>: the universal zero
  initialiser.
\<close>

definition setDefaultCommandLineArguments :: CommandLineArguments where
  "setDefaultCommandLineArguments =
     \<lparr>common =
        \<lparr>outputFilePath = [],
         isInputFromFileEnabled = False,
         isWriteToFileEnabled = False,
         isOutputJSONMode = False,
         isHelpEnabled = False,
         isTimingEnabled = False,
         isBenchmarkingMode = False,
         isMonteCarloMode = False,
         isOutputSelected = False,
         outputSelect = 0,
         numberOfMonteCarloIterations = 0\<rparr>\<rparr>"

text \<open>The arguments of a run that selects output \<open>s\<close>, everything else zero.\<close>

definition selecting :: "nat \<Rightarrow> CommandLineArguments" where
  "selecting s =
     setDefaultCommandLineArguments
       \<lparr>common := (common setDefaultCommandLineArguments)
          \<lparr>isOutputSelected := True, outputSelect := s\<rparr>\<rparr>"

subsection \<open>main.c: setInputDistributionsViaUxHwCall\<close>

text \<open>
  \<^verbatim>\<open>UxHwDoubleUniformDist\<close> belongs to the platform header \<^verbatim>\<open>uxhw.h\<close> and is a
  parameter of the model: given the bounds and the state of the generator it returns the
  value drawn and the next state. The three stores go to the array behind the pointer, in
  program order.
\<close>

definition setInputDistributionsViaUxHwCall ::
  "(real \<Rightarrow> real \<Rightarrow> 's \<Rightarrow> real \<times> 's) \<Rightarrow> real list \<Rightarrow> 's \<Rightarrow> real list \<times> 's" where
  "setInputDistributionsViaUxHwCall UxHwDoubleUniformDist inputDistributions s0 =
     (let (vrh, s1) = UxHwDoubleUniformDist
                        kDefaultInputDistributionVrhUniformDistLow
                        kDefaultInputDistributionVrhUniformDistHigh s0;
          in1 = inputDistributions[kInputDistributionIndexVrh := vrh];
          (vt, s2) = UxHwDoubleUniformDist
                        kDefaultInputDistributionVtUniformDistLow
                        kDefaultInputDistributionVtUniformDistHigh s1;
          in2 = in1[kInputDistributionIndexVt := vt];
          (vsupply, s3) = UxHwDoubleUniformDist
                        kDefaultInputDistributionVsupplyUniformDistLow
                        kDefaultInputDistributionVsupplyUniformDistHigh s2;
          in3 = in2[kInputDistributionIndexVsupply := vsupply]
      in (in3, s3))"

text \<open>
  A generator to run the model on: it walks through the quarter points of the requested
  interval, its state being the number of draws made so far.
\<close>

definition quarterStepUniformDist :: "real \<Rightarrow> real \<Rightarrow> nat \<Rightarrow> real \<times> nat" where
  "quarterStepUniformDist lo hi s = (lo + (hi - lo) * (real (s mod 4) / 4), Suc s)"

subsection \<open>utilities.c: getCommandLineArguments\<close>

text \<open>
  \<^verbatim>\<open>CommonConstantReturnType\<close> comes from \<^verbatim>\<open>common.h\<close>; \<^verbatim>\<open>main\<close> tests the value
  returned as a truth value, so success is zero and error is not.
\<close>

datatype CommonConstantReturnType =
  kCommonConstantReturnTypeSuccess | kCommonConstantReturnTypeError

text \<open>
  How a call ends: it returns a value, or it ends the process through \<^verbatim>\<open>exit\<close> with
  the given status (\<^verbatim>\<open>EXIT_SUCCESS\<close> is \<open>0\<close>).
\<close>

datatype 'a control = Return 'a | Exit int

text \<open>
  What \<^verbatim>\<open>utilities.c\<close> writes to \<^verbatim>\<open>stderr\<close>, one constructor for each
  \<^verbatim>\<open>fprintf\<close> (and one for \<^verbatim>\<open>printUsage\<close>); \<open>OutputSelectGreaterThanMax\<close> carries
  the two numbers the message prints.
\<close>

datatype diagnostic =
    ArgumentsPointerIsNull
  | ParsingFailed
  | Usage
  | InputFromFileNotSupported
  | WriteToFileNotSupportedInMonteCarloMode
  | OutputSelectGreaterThanMax nat nat
  | SelectSingleOutput

text \<open>
  \<^verbatim>\<open>parseArgs\<close> is defined in \<^verbatim>\<open>common.c\<close>, which is not among the sources, and is a
  parameter: from the argument vector and the zeroed structure it gives its status and
  the structure it filled in. The pointer \<^verbatim>\<open>arguments\<close> is \<open>None\<close> when it is
  \<^verbatim>\<open>NULL\<close>. The result is how the call ends, what it printed to \<^verbatim>\<open>stderr\<close>, and
  the structure behind the pointer afterwards.
\<close>

definition getCommandLineArguments ::
  "(string list \<Rightarrow> CommonCommandLineArguments \<Rightarrow> int \<times> CommonCommandLineArguments) \<Rightarrow>
   string list \<Rightarrow> CommandLineArguments option \<Rightarrow>
   CommonConstantReturnType control \<times> diagnostic list \<times> CommandLineArguments option" where
  "getCommandLineArguments parseArgs argv arguments =
     (case arguments of
        None \<Rightarrow> (Return kCommonConstantReturnTypeError, [ArgumentsPointerIsNull], None)
      | Some _ \<Rightarrow>
          (let (status, parsed) = parseArgs argv (common setDefaultCommandLineArguments)
           in
             if status \<noteq> 0 then
               (Return kCommonConstantReturnTypeError, [ParsingFailed, Usage],
                Some \<lparr>common = parsed\<rparr>)
             else if isHelpEnabled parsed then
               (Exit 0, [Usage], Some \<lparr>common = parsed\<rparr>)
             else if isInputFromFileEnabled parsed then
               (Return kCommonConstantReturnTypeError, [InputFromFileNotSupported],
                Some \<lparr>common = parsed\<rparr>)
             else if isWriteToFileEnabled parsed \<and> isMonteCarloMode parsed then
               (Return kCommonConstantReturnTypeError,
                [WriteToFileNotSupportedInMonteCarloMode], Some \<lparr>common = parsed\<rparr>)
             else
               (let selected =
                      (if \<not> isOutputSelected parsed
                       then parsed\<lparr>outputSelect := kOutputDistributionIndexMax\<rparr>
                       else parsed)
                in
                  if outputSelect selected > kOutputDistributionIndexMax then
                    (Return kCommonConstantReturnTypeSuccess,
                     [OutputSelectGreaterThanMax (outputSelect selected)
                        kOutputDistributionIndexMax],
                     Some \<lparr>common = selected\<rparr>)
                  else if outputSelect selected = kOutputDistributionIndexMax \<and>
                          (isBenchmarkingMode selected \<or> isMonteCarloMode selected) then
                    (Return kCommonConstantReturnTypeError, [SelectSingleOutput],
                     Some \<lparr>common = selected\<rparr>)
                  else
                    (Return kCommonConstantReturnTypeSuccess, [], Some \<lparr>common = selected\<rparr>))))"

text \<open>A parser to run the model on: it reports the given status and structure.\<close>

definition parsedAs ::
  "int \<Rightarrow> CommonCommandLineArguments \<Rightarrow> string list \<Rightarrow> CommonCommandLineArguments \<Rightarrow>
   int \<times> CommonCommandLineArguments" where
  "parsedAs status parsed argv initial = (status, parsed)"

subsection \<open>main.c: main, up to the end of the computation loop\<close>

text \<open>
  The locals of \<^verbatim>\<open>main\<close> that the loop reads or writes, with the state of the
  generator behind \<^verbatim>\<open>UxHwDoubleUniformDist\<close>. \<^verbatim>\<open>monteCarloOutputSamples\<close> is
  \<open>None\<close> while it is \<^verbatim>\<open>NULL\<close>.
\<close>

record 's main_state =
  uxhwState :: 's
  mainInputDistributions :: "real list"
  mainOutputDistributions :: "real list"
  mainCalibratedSensorOutput :: real
  mainMonteCarloOutputSamples :: "real list option"

text \<open>
  The sizes of the data model of 64-bit hosts, which the sources do not spell out:
  \<^verbatim>\<open>sizeof(double)\<close> is \<open>8\<close> and \<^verbatim>\<open>size_t\<close> has 64 bits, so arithmetic on sizes is
  modulo \<open>2 ^ 64\<close>.
\<close>

definition sizeof_double :: nat where
  "sizeof_double = 8"

definition size_t_modulus :: nat where
  "size_t_modulus = 2 ^ 64"

text \<open>
  Modelled from the spec: \<^verbatim>\<open>checkedMalloc\<close> of \<^verbatim>\<open>common.c\<close> is missing. Following
  section 7 of the specification a failed allocation ends the process (\<open>None\<close>);
  otherwise the block of \<open>bytes\<close> bytes is returned, seen through the cast to
  \<^verbatim>\<open>double *\<close> as the slots it has room for, of indeterminate content.
\<close>

definition checkedMalloc :: "bool \<Rightarrow> (nat \<Rightarrow> real) \<Rightarrow> nat \<Rightarrow> real list option" where
  "checkedMalloc memoryAvailable indeterminate bytes =
     (if memoryAvailable then Some (map indeterminate [0..<bytes div sizeof_double])
      else None)"

text \<open>Memory to run the model on: every uninitialised slot holds zero.\<close>

definition zeroFilled :: "nat \<Rightarrow> real" where
  "zeroFilled i = 0"

text \<open>
  A store that C leaves undefined: through the \<^verbatim>\<open>NULL\<close> pointer, or at an index
  beyond the allocated block.
\<close>

datatype fault = StoreThroughNull | StoreOutsideBuffer nat

text \<open>
  One pass through the body of the \<^verbatim>\<open>for\<close> loop, at index \<open>i\<close>: the sampler, the
  calibration function, and in Monte Carlo mode the store
  \<^verbatim>\<open>monteCarloOutputSamples[i] = calibratedSensorOutput\<close>.
\<close>

definition mainLoopBody ::
  "(real \<Rightarrow> real \<Rightarrow> 's \<Rightarrow> real \<times> 's) \<Rightarrow> CommandLineArguments \<Rightarrow> nat \<Rightarrow>
   's main_state \<Rightarrow> fault + 's main_state" where
  "mainLoopBody UxHwDoubleUniformDist arguments i st =
     (let (sampled, s') =
            setInputDistributionsViaUxHwCall UxHwDoubleUniformDist
              (mainInputDistributions st) (uxhwState st);
          r = calculateSensorOutput arguments sampled (mainOutputDistributions st);
          st' = st\<lparr>uxhwState := s',
                   mainInputDistributions := sampled,
                   mainOutputDistributions := outputArray r,
                   mainCalibratedSensorOutput := calibratedValue r\<rparr>
      in if isMonteCarloMode (common arguments) then
           (case mainMonteCarloOutputSamples st' of
              None \<Rightarrow> Inl StoreThroughNull
            | Some samples \<Rightarrow>
                if i < length samples then
                  Inr (st'\<lparr>mainMonteCarloOutputSamples :=
                            Some (samples[i := mainCalibratedSensorOutput st'])\<rparr>)
                else Inl (StoreOutsideBuffer i))
         else Inr st')"

text \<open>
  The loop \<^verbatim>\<open>for (size_t i = 0; i < numberOfMonteCarloIterations; i++)\<close>, entered at
  index \<open>i\<close>; it stops at the first undefined store. The increment does not wrap, since
  \<open>i\<close> is below the iteration count.
\<close>

function mainLoop ::
  "(real \<Rightarrow> real \<Rightarrow> 's \<Rightarrow> real \<times> 's) \<Rightarrow> CommandLineArguments \<Rightarrow> nat \<Rightarrow>
   's main_state \<Rightarrow> fault + 's main_state" where
  "mainLoop UxHwDoubleUniformDist arguments i st =
     (if i < numberOfMonteCarloIterations (common arguments)
      then (case mainLoopBody UxHwDoubleUniformDist arguments i st of
              Inl e \<Rightarrow> Inl e
            | Inr st' \<Rightarrow> mainLoop UxHwDoubleUniformDist arguments (i + 1) st')
      else Inr st)"
  by pat_completeness auto
termination
  by (relation "measure (\<lambda>(d, a, i, st). numberOfMonteCarloIterations (common a) - i)") auto

declare mainLoop.simps [simp del]

text \<open>
  The locals at the entry of the loop: the two arrays and the scalar are uninitialised
  (\<open>indeterminate\<close> gives their content), the sample buffer is the allocation.
\<close>

definition mainInitialState ::
  "(nat \<Rightarrow> real) \<Rightarrow> 's \<Rightarrow> real list option \<Rightarrow> 's main_state" where
  "mainInitialState indeterminate s0 monteCarloOutputSamples =
     \<lparr>uxhwState = s0,
      mainInputDistributions = map indeterminate [0..<kInputDistributionIndexMax],
      mainOutputDistributions = map indeterminate [0..<kOutputDistributionIndexMax],
      mainCalibratedSensorOutput = indeterminate 0,
      mainMonteCarloOutputSamples = monteCarloOutputSamples\<rparr>"

text \<open>
  How far \<^verbatim>\<open>main\<close> gets: the process exited inside the argument processing, \<^verbatim>\<open>main\<close>
  returned \<^verbatim>\<open>kCommonConstantReturnTypeError\<close> before computing anything, the
  allocation failed, a pass of the loop made an undefined store, or the loop ran to its
  end with the given arguments and locals.
\<close>

datatype 's main_progress =
    Exited int
  | ReturnedError
  | AllocationFailed
  | UndefinedStore fault
  | LoopCompleted CommandLineArguments "'s main_state"

text \<open>
  \<^verbatim>\<open>main\<close> from its first line to the end of the \<^verbatim>\<open>for\<close> loop, with what was
  written to \<^verbatim>\<open>stderr\<close>. The size of the allocation is the product
  \<^verbatim>\<open>numberOfMonteCarloIterations * sizeof(double)\<close> in \<^verbatim>\<open>size_t\<close> arithmetic. The
  clock readings are left out.
\<close>

definition mainComputation ::
  "(string list \<Rightarrow> CommonCommandLineArguments \<Rightarrow> int \<times> CommonCommandLineArguments) \<Rightarrow>
   (real \<Rightarrow> real \<Rightarrow> 's \<Rightarrow> real \<times> 's) \<Rightarrow> bool \<Rightarrow> (nat \<Rightarrow> real) \<Rightarrow> string list \<Rightarrow> 's \<Rightarrow>
   's main_progress \<times> diagnostic list" where
  "mainComputation parseArgs UxHwDoubleUniformDist memoryAvailable indeterminate argv s0 =
     (case getCommandLineArguments parseArgs argv (Some setDefaultCommandLineArguments) of
        (Exit status, err, _) \<Rightarrow> (Exited status, err)
      | (Return kCommonConstantReturnTypeError, err, _) \<Rightarrow> (ReturnedError, err)
      | (Return kCommonConstantReturnTypeSuccess, err, None) \<Rightarrow> (ReturnedError, err)
      | (Return kCommonConstantReturnTypeSuccess, err, Some arguments) \<Rightarrow>
          (case (if isMonteCarloMode (common arguments)
                 then map_option Some
                        (checkedMalloc memoryAvailable indeterminate
                           ((numberOfMonteCarloIterations (common arguments) * sizeof_double)
                              mod size_t_modulus))
                 else Some None) of
             None \<Rightarrow> (AllocationFailed, err)
           | Some monteCarloOutputSamples \<Rightarrow>
               (case mainLoop UxHwDoubleUniformDist arguments 0
                       (mainInitialState indeterminate s0 monteCarloOutputSamples) of
                  Inl e \<Rightarrow> (UndefinedStore e, err)
                | Inr final \<Rightarrow> (LoopCompleted arguments final, err))))"



subsection \<open>The statistics aggregator\<close>

text \<open>
  \<^verbatim>\<open>MeanAndVariance\<close> is declared in \<^verbatim>\<open>common.h\<close>; \<^verbatim>\<open>main\<close> reads its field
  \<^verbatim>\<open>mean\<close>.
\<close>

record MeanAndVariance =
  mean :: real
  variance :: real

datatype aggregation_error = EmptySampleBuffer

fun accumulateSum :: "real list \<Rightarrow> real \<Rightarrow> real" where
  "accumulateSum [] acc = acc"
| "accumulateSum (x # xs) acc = accumulateSum xs (acc + x)"

fun accumulateSquaredDeviations :: "real \<Rightarrow> real list \<Rightarrow> real \<Rightarrow> real" where
  "accumulateSquaredDeviations m [] acc = acc"
| "accumulateSquaredDeviations m (x # xs) acc =
     accumulateSquaredDeviations m xs (acc + (x - m) * (x - m))"

text \<open>
  Modelled from the spec: \<^verbatim>\<open>calculateMeanAndVarianceOfDoubleSamples\<close> is defined in
  \<^verbatim>\<open>common.c\<close>, which is not among the sources; only its call in \<^verbatim>\<open>main\<close> is.
  Following section 4.4 of the specification: an empty buffer is rejected before any
  division; otherwise the first pass computes the mean and the second accumulates the
  squared deviations from it, divided by the number of samples. The array and its size
  are one list.
\<close>

definition calculateMeanAndVarianceOfDoubleSamples ::
  "real list \<Rightarrow> aggregation_error + MeanAndVariance" where
  "calculateMeanAndVarianceOfDoubleSamples dataArray =
     (if length dataArray = 0 then Inl EmptySampleBuffer
      else
        (let m = accumulateSum dataArray 0 / real (length dataArray);
             v = accumulateSquaredDeviations m dataArray 0 / real (length dataArray)
         in Inr \<lparr>mean = m, variance = v\<rparr>))"

text \<open>The arithmetic average and the population variance, as the specification words them.\<close>

definition arithmeticAverage :: "real list \<Rightarrow> real" where
  "arithmeticAverage xs = sum_list xs / real (length xs)"

definition populationVariance :: "real list \<Rightarrow> real" where
  "populationVariance xs =
     sum_list (map (\<lambda>x. (x - arithmeticAverage xs)\<^sup>2) xs) / real (length xs)"

section \<open>Properties of the calibration function\<close>

lemmas config_defs =
  kSensorCalibrationConstant1_def kSensorCalibrationConstant2_def
  kSensorCalibrationConstant3_def kSensorCalibrationConstant4_def
  kSensorCalibrationConstant5_def kSensorCalibrationConstant6_def
  kDefaultInputDistributionVtUniformDistLow_def kDefaultInputDistributionVtUniformDistHigh_def
  kDefaultInputDistributionVrhUniformDistLow_def kDefaultInputDistributionVrhUniformDistHigh_def
  kDefaultInputDistributionVsupplyUniformDistLow_def
  kDefaultInputDistributionVsupplyUniformDistHigh_def
  kInputDistributionIndexVrh_def kInputDistributionIndexVt_def
  kInputDistributionIndexVsupply_def kInputDistributionIndexMax_def
  kOutputDistributionIndexCalibratedRelativeHumidity_def
  kOutputDistributionIndexCalibratedTemperatureCelcius_def
  kOutputDistributionIndexCalibratedTemperatureFahrenheit_def
  kOutputDistributionIndexMax_def

lemma outputSelect_selecting: "outputSelect (common (selecting s)) = s"
  by (simp add: selecting_def)

text \<open>
  C1. With a supply voltage that is not zero, the calibration function computes
  relative humidity \<open>-12.5 + 125 * (Vrh / Vsupply)\<close>, temperature in Celsius
  \<open>-66.875 + 218.75 * (Vt / Vsupply)\<close> and temperature in Fahrenheit
  \<open>-88.375 + 393.75 * (Vt / Vsupply)\<close>, each stored in its entry of the output array
  whenever the selector asks for it (the selector "all" asks for all three).
\<close>

theorem calculateSensorOutput_formulas:
  assumes "Vsupply \<noteq> 0" and "length outputDistributions = kOutputDistributionIndexMax"
  shows
    "(outputSelect (common arguments) = kOutputDistributionIndexMax \<or>
      outputSelect (common arguments) = kOutputDistributionIndexCalibratedRelativeHumidity
      \<longrightarrow> outputArray (calculateSensorOutput arguments [Vrh, Vt, Vsupply] outputDistributions)
            ! kOutputDistributionIndexCalibratedRelativeHumidity
          = - 12.5 + 125 * (Vrh / Vsupply)) \<and>
     (outputSelect (common arguments) = kOutputDistributionIndexMax \<or>
      outputSelect (common arguments) = kOutputDistributionIndexCalibratedTemperatureCelcius
      \<longrightarrow> outputArray (calculateSensorOutput arguments [Vrh, Vt, Vsupply] outputDistributions)
            ! kOutputDistributionIndexCalibratedTemperatureCelcius
          = - 66.875 + 218.75 * (Vt / Vsupply)) \<and>
     (outputSelect (common arguments) = kOutputDistributionIndexMax \<or>
      outputSelect (common arguments) = kOutputDistributionIndexCalibratedTemperatureFahrenheit
      \<longrightarrow> outputArray (calculateSensorOutput arguments [Vrh, Vt, Vsupply] outputDistributions)
            ! kOutputDistributionIndexCalibratedTemperatureFahrenheit
          = - 88.375 + 393.75 * (Vt / Vsupply))"
  using assms
  by (auto simp add: calculateSensorOutput_def assignOutput_def Let_def config_defs)



theorem calculateSensorOutput_formulas_witness:
  "outputArray (calculateSensorOutput (selecting 3) [2.5, 2.5, 5.1] [0, 0, 0]) ! 0 =
     - 12.5 + 125 * (2.5 / 5.1) \<and>
   outputArray (calculateSensorOutput (selecting 3) [2.5, 2.5, 5.1] [0, 0, 0]) ! 1 =
     - 66.875 + 218.75 * (2.5 / 5.1) \<and>
   outputArray (calculateSensorOutput (selecting 3) [2.5, 2.5, 5.1] [0, 0, 0]) ! 2 =
     - 88.375 + 393.75 * (2.5 / 5.1) \<and>
   \<bar>outputArray (calculateSensorOutput (selecting 3) [2.5, 2.5, 5.1] [0, 0, 0]) ! 0
      - (- 12.5 + 125 * (2.5 / 5.1))\<bar> \<le> 1 / 10 ^ 6"
proof -
  have sel: "outputSelect (common (selecting 3)) = kOutputDistributionIndexMax"
    by (simp add: selecting_def kOutputDistributionIndexMax_def)
  have nz: "(5.1::real) \<noteq> 0" by simp
  have l3: "length [0::real, 0, 0] = kOutputDistributionIndexMax"
    by (simp add: kOutputDistributionIndexMax_def)
  note f = calculateSensorOutput_formulas [OF nz l3, where arguments = "selecting 3"
      and Vrh = "2.5" and Vt = "2.5"]
  show ?thesis
    using f sel
    by (simp add: kOutputDistributionIndexCalibratedRelativeHumidity_def
      kOutputDistributionIndexCalibratedTemperatureCelcius_def
      kOutputDistributionIndexCalibratedTemperatureFahrenheit_def)
qed

lemma calculateSensorOutput_cases:
  "calculateSensorOutput arguments ins outs =
     (let rh = kSensorCalibrationConstant1 + kSensorCalibrationConstant2 *
                 (ins ! kInputDistributionIndexVrh / ins ! kInputDistributionIndexVsupply);
          tc = kSensorCalibrationConstant3 + kSensorCalibrationConstant4 *
                 (ins ! kInputDistributionIndexVt / ins ! kInputDistributionIndexVsupply);
          tf = kSensorCalibrationConstant5 + kSensorCalibrationConstant6 *
                 (ins ! kInputDistributionIndexVt / ins ! kInputDistributionIndexVsupply);
          s = outputSelect (common arguments)
      in if s = 3 then \<lparr>calibratedValue = tf, outputArray = outs[0 := rh, 1 := tc, 2 := tf],
                        storeLog = [(0, rh), (1, tc), (2, tf)]\<rparr>
         else if s = 0 then \<lparr>calibratedValue = rh, outputArray = outs[0 := rh], storeLog = [(0, rh)]\<rparr>
         else if s = 1 then \<lparr>calibratedValue = tc, outputArray = outs[1 := tc], storeLog = [(1, tc)]\<rparr>
         else if s = 2 then \<lparr>calibratedValue = tf, outputArray = outs[2 := tf], storeLog = [(2, tf)]\<rparr>
         else \<lparr>calibratedValue = 0, outputArray = outs, storeLog = []\<rparr>)"
  by (simp add: calculateSensorOutput_def assignOutput_def Let_def
      kOutputDistributionIndexMax_def kOutputDistributionIndexCalibratedRelativeHumidity_def
      kOutputDistributionIndexCalibratedTemperatureCelcius_def
      kOutputDistributionIndexCalibratedTemperatureFahrenheit_def)

text \<open>
  C8. The scalar returned by the calibration function is the value of the last store made
  to the output array, and that entry of the array holds it; every selector up to "all"
  makes at least one store. A single-output selector \<open>s\<close> makes its one store to entry
  \<open>s\<close>, which then holds the scalar returned, the rest of the array being as before.
  The selector "all" makes three stores, to the entries relative humidity, Celsius and
  Fahrenheit in this order; the array afterwards consists of the three values stored and
  the scalar returned is its Fahrenheit entry. A selector above "all" makes no store and
  returns \<open>0\<close>. With a supply voltage that is not zero the values stored are the
  calibrated outputs: \<open>-12.5 + 125 * (Vrh / Vsupply)\<close>,
  \<open>-66.875 + 218.75 * (Vt / Vsupply)\<close> and \<open>-88.375 + 393.75 * (Vt / Vsupply)\<close>.
\<close>

theorem calculateSensorOutput_returns_last_store:
  assumes "length outputDistributions = kOutputDistributionIndexMax"
  shows
    "(storeLog (calculateSensorOutput arguments [Vrh, Vt, Vsupply] outputDistributions) \<noteq> []
      \<longrightarrow>
        calibratedValue (calculateSensorOutput arguments [Vrh, Vt, Vsupply] outputDistributions)
          = snd (last (storeLog
              (calculateSensorOutput arguments [Vrh, Vt, Vsupply] outputDistributions))) \<and>
        outputArray (calculateSensorOutput arguments [Vrh, Vt, Vsupply] outputDistributions)
          ! fst (last (storeLog
              (calculateSensorOutput arguments [Vrh, Vt, Vsupply] outputDistributions)))
          = calibratedValue
              (calculateSensorOutput arguments [Vrh, Vt, Vsupply] outputDistributions)) \<and>
     (outputSelect (common arguments) \<le> kOutputDistributionIndexMax \<longrightarrow>
        storeLog (calculateSensorOutput arguments [Vrh, Vt, Vsupply] outputDistributions)
          \<noteq> []) \<and>
     (outputSelect (common arguments) < kOutputDistributionIndexMax \<longrightarrow>
        map fst (storeLog
          (calculateSensorOutput arguments [Vrh, Vt, Vsupply] outputDistributions))
          = [outputSelect (common arguments)] \<and>
        outputArray (calculateSensorOutput arguments [Vrh, Vt, Vsupply] outputDistributions)
          = outputDistributions
              [outputSelect (common arguments) :=
                 calibratedValue
                   (calculateSensorOutput arguments [Vrh, Vt, Vsupply] outputDistributions)] \<and>
        outputArray (calculateSensorOutput arguments [Vrh, Vt, Vsupply] outputDistributions)
          ! outputSelect (common arguments)
          = calibratedValue
              (calculateSensorOutput arguments [Vrh, Vt, Vsupply] outputDistributions)) \<and>
     (outputSelect (common arguments) = kOutputDistributionIndexMax \<longrightarrow>
        map fst (storeLog
          (calculateSensorOutput arguments [Vrh, Vt, Vsupply] outputDistributions))
          = [kOutputDistributionIndexCalibratedRelativeHumidity,
             kOutputDistributionIndexCalibratedTemperatureCelcius,
             kOutputDistributionIndexCalibratedTemperatureFahrenheit] \<and>
        outputArray (calculateSensorOutput arguments [Vrh, Vt, Vsupply] outputDistributions)
          = map snd (storeLog
              (calculateSensorOutput arguments [Vrh, Vt, Vsupply] outputDistributions)) \<and>
        calibratedValue (calculateSensorOutput arguments [Vrh, Vt, Vsupply] outputDistributions)
          = outputArray
              (calculateSensorOutput arguments [Vrh, Vt, Vsupply] outputDistributions)
              ! kOutputDistributionIndexCalibratedTemperatureFahrenheit) \<and>
     (kOutputDistributionIndexMax < outputSelect (common arguments) \<longrightarrow>
        calculateSensorOutput arguments [Vrh, Vt, Vsupply] outputDistributions
          = \<lparr>calibratedValue = 0, outputArray = outputDistributions, storeLog = []\<rparr>) \<and>
     (Vsupply \<noteq> 0 \<longrightarrow>
        (outputSelect (common arguments) = kOutputDistributionIndexMax \<longrightarrow>
           storeLog (calculateSensorOutput arguments [Vrh, Vt, Vsupply] outputDistributions)
             = [(kOutputDistributionIndexCalibratedRelativeHumidity,
                   - 12.5 + 125 * (Vrh / Vsupply)),
                (kOutputDistributionIndexCalibratedTemperatureCelcius,
                   - 66.875 + 218.75 * (Vt / Vsupply)),
                (kOutputDistributionIndexCalibratedTemperatureFahrenheit,
                   - 88.375 + 393.75 * (Vt / Vsupply))]) \<and>
        (outputSelect (common arguments) =
           kOutputDistributionIndexCalibratedRelativeHumidity \<longrightarrow>
           storeLog (calculateSensorOutput arguments [Vrh, Vt, Vsupply] outputDistributions)
             = [(kOutputDistributionIndexCalibratedRelativeHumidity,
                   - 12.5 + 125 * (Vrh / Vsupply))]) \<and>
        (outputSelect (common arguments) =
           kOutputDistributionIndexCalibratedTemperatureCelcius \<longrightarrow>
           storeLog (calculateSensorOutput arguments [Vrh, Vt, Vsupply] outputDistributions)
             = [(kOutputDistributionIndexCalibratedTemperatureCelcius,
                   - 66.875 + 218.75 * (Vt / Vsupply))]) \<and>
        (outputSelect (common arguments) =
           kOutputDistributionIndexCalibratedTemperatureFahrenheit \<longrightarrow>
           storeLog (calculateSensorOutput arguments [Vrh, Vt, Vsupply] outputDistributions)
             = [(kOutputDistributionIndexCalibratedTemperatureFahrenheit,
                   - 88.375 + 393.75 * (Vt / Vsupply))]))"
proof -
  let ?s = "outputSelect (common arguments)"
  from assms obtain a b c where outs: "outputDistributions = [a, b, c]"
    by (auto simp add: kOutputDistributionIndexMax_def numeral_3_eq_3 length_Suc_conv)
  consider "?s = 3" | "?s = 0" | "?s = 1" | "?s = 2" | "3 < ?s"
    by linarith
  then show ?thesis
  proof cases
    case 1
    then show ?thesis
      by (simp add: calculateSensorOutput_cases Let_def config_defs outs)
  next
    case 2
    then show ?thesis
      by (simp add: calculateSensorOutput_cases Let_def config_defs outs)
  next
    case 3
    then show ?thesis
      by (simp add: calculateSensorOutput_cases Let_def config_defs outs)
  next
    case 4
    then show ?thesis
      by (simp add: calculateSensorOutput_cases Let_def config_defs outs)
  next
    case 5
    then show ?thesis
      by (simp add: calculateSensorOutput_cases Let_def config_defs outs)
  qed
qed

theorem calculateSensorOutput_returns_last_store_witness:
  "calculateSensorOutput (selecting 3) [2.5, 2.5, 5.1] [0, 0, 0] =
     \<lparr>calibratedValue = - 88.375 + 393.75 * (2.5 / 5.1),
      outputArray = [- 12.5 + 125 * (2.5 / 5.1), - 66.875 + 218.75 * (2.5 / 5.1),
                     - 88.375 + 393.75 * (2.5 / 5.1)],
      storeLog = [(0, - 12.5 + 125 * (2.5 / 5.1)), (1, - 66.875 + 218.75 * (2.5 / 5.1)),
                  (2, - 88.375 + 393.75 * (2.5 / 5.1))]\<rparr> \<and>
   calculateSensorOutput (selecting 1) [2.5, 2.5, 5.1] [7, 8, 9] =
     \<lparr>calibratedValue = - 66.875 + 218.75 * (2.5 / 5.1),
      outputArray = [7, - 66.875 + 218.75 * (2.5 / 5.1), 9],
      storeLog = [(1, - 66.875 + 218.75 * (2.5 / 5.1))]\<rparr>"
proof -
  have sel3: "outputSelect (common (selecting 3)) = kOutputDistributionIndexMax"
    by (simp add: selecting_def kOutputDistributionIndexMax_def)
  have sel1: "outputSelect (common (selecting 1)) =
      kOutputDistributionIndexCalibratedTemperatureCelcius"
    by (simp add: selecting_def kOutputDistributionIndexCalibratedTemperatureCelcius_def)
  have l0: "length [0::real, 0, 0] = kOutputDistributionIndexMax"
    by (simp add: kOutputDistributionIndexMax_def)
  have l7: "length [7::real, 8, 9] = kOutputDistributionIndexMax"
    by (simp add: kOutputDistributionIndexMax_def)
  note all =
    calculateSensorOutput_returns_last_store
      [OF l0, where arguments = "selecting 3" and Vrh = "2.5" and Vt = "2.5"
        and Vsupply = "5.1"]
  note one =
    calculateSensorOutput_returns_last_store
      [OF l7, where arguments = "selecting 1" and Vrh = "2.5" and Vt = "2.5"
        and Vsupply = "5.1"]
  have a: "calculateSensorOutput (selecting 3) [2.5, 2.5, 5.1] [0, 0, 0] =
     \<lparr>calibratedValue = - 88.375 + 393.75 * (2.5 / 5.1),
      outputArray = [- 12.5 + 125 * (2.5 / 5.1), - 66.875 + 218.75 * (2.5 / 5.1),
                     - 88.375 + 393.75 * (2.5 / 5.1)],
      storeLog = [(0, - 12.5 + 125 * (2.5 / 5.1)), (1, - 66.875 + 218.75 * (2.5 / 5.1)),
                  (2, - 88.375 + 393.75 * (2.5 / 5.1))]\<rparr>"
    using all sel3
    by (intro calculation.equality)
      (simp_all add: kOutputDistributionIndexMax_def
        kOutputDistributionIndexCalibratedRelativeHumidity_def
        kOutputDistributionIndexCalibratedTemperatureCelcius_def
        kOutputDistributionIndexCalibratedTemperatureFahrenheit_def)
  have b: "calculateSensorOutput (selecting 1) [2.5, 2.5, 5.1] [7, 8, 9] =
     \<lparr>calibratedValue = - 66.875 + 218.75 * (2.5 / 5.1),
      outputArray = [7, - 66.875 + 218.75 * (2.5 / 5.1), 9],
      storeLog = [(1, - 66.875 + 218.75 * (2.5 / 5.1))]\<rparr>"
    using one sel1
    by (intro calculation.equality)
      (simp_all add: kOutputDistributionIndexMax_def
        kOutputDistributionIndexCalibratedRelativeHumidity_def
        kOutputDistributionIndexCalibratedTemperatureCelcius_def
        kOutputDistributionIndexCalibratedTemperatureFahrenheit_def)
  from a b show ?thesis by simp
qed

text \<open>
  C10. With a single-output selector \<open>s\<close> the calibration function makes exactly one
  store, to entry \<open>s\<close>; the array keeps its length and every other entry keeps its value.
\<close>

theorem calculateSensorOutput_frame:
  assumes "outputSelect (common arguments) < kOutputDistributionIndexMax"
  shows "map fst (storeLog (calculateSensorOutput arguments ins outs)) =
           [outputSelect (common arguments)] \<and>
         length (outputArray (calculateSensorOutput arguments ins outs)) = length outs \<and>
         (\<forall>j < length outs. j \<noteq> outputSelect (common arguments) \<longrightarrow>
            outputArray (calculateSensorOutput arguments ins outs) ! j = outs ! j)"
  using assms
  by (auto simp add: calculateSensorOutput_cases Let_def kOutputDistributionIndexMax_def)

theorem calculateSensorOutput_frame_witness:
  "map fst (storeLog (calculateSensorOutput (selecting 1) [2.5, 2.5, 5.1] [7, 8, 9])) = [1] \<and>
   length (outputArray (calculateSensorOutput (selecting 1) [2.5, 2.5, 5.1] [7, 8, 9])) = 3 \<and>
   outputArray (calculateSensorOutput (selecting 1) [2.5, 2.5, 5.1] [7, 8, 9]) ! 0 = 7 \<and>
   outputArray (calculateSensorOutput (selecting 1) [2.5, 2.5, 5.1] [7, 8, 9]) ! 2 = 9"
proof -
  have sel: "outputSelect (common (selecting 1)) = 1"
    by (simp add: selecting_def)
  have lt: "outputSelect (common (selecting 1)) < kOutputDistributionIndexMax"
    by (simp add: selecting_def kOutputDistributionIndexMax_def)
  note f = calculateSensorOutput_frame [OF lt, of "[2.5, 2.5, 5.1]" "[7, 8, 9]"]
  from f sel have a: "\<forall>j < 3. j \<noteq> 1 \<longrightarrow>
      outputArray (calculateSensorOutput (selecting 1) [2.5, 2.5, 5.1] [7, 8, 9]) ! j =
      [7, 8, 9] ! j"
    by simp
  from a [rule_format, of 0] a [rule_format, of 2] f sel show ?thesis
    by simp
qed

section \<open>Properties of the input sampler\<close>

lemma length_setInputDistributionsViaUxHwCall:
  "length (fst (setInputDistributionsViaUxHwCall draw ins s)) = length ins"
  by (simp add: setInputDistributionsViaUxHwCall_def Let_def split: prod.splits)

text \<open>
  C4. Provided the platform's uniform generator keeps its contract (for \<open>lo < hi\<close> the
  value drawn lies in \<open>[lo, hi]\<close>), every call of the sampler leaves the humidity
  voltage in \<open>[2.3, 2.7]\<close>, the temperature voltage in \<open>[2.3, 2.7]\<close> and the supply
  voltage in \<open>[4.8, 5.4]\<close>; the supply voltage, the divisor of both quotients of the
  calibration function, is therefore not zero.
\<close>

theorem setInputDistributionsViaUxHwCall_within_ranges:
  assumes contract:
      "\<forall>lo hi s. lo < hi \<longrightarrow> lo \<le> fst (draw lo hi s) \<and> fst (draw lo hi s) \<le> hi"
    and len: "length inputDistributions = kInputDistributionIndexMax"
  shows "2.3 \<le> fst (setInputDistributionsViaUxHwCall draw inputDistributions s)
                  ! kInputDistributionIndexVrh \<and>
         fst (setInputDistributionsViaUxHwCall draw inputDistributions s)
                  ! kInputDistributionIndexVrh \<le> 2.7 \<and>
         2.3 \<le> fst (setInputDistributionsViaUxHwCall draw inputDistributions s)
                  ! kInputDistributionIndexVt \<and>
         fst (setInputDistributionsViaUxHwCall draw inputDistributions s)
                  ! kInputDistributionIndexVt \<le> 2.7 \<and>
         4.8 \<le> fst (setInputDistributionsViaUxHwCall draw inputDistributions s)
                  ! kInputDistributionIndexVsupply \<and>
         fst (setInputDistributionsViaUxHwCall draw inputDistributions s)
                  ! kInputDistributionIndexVsupply \<le> 5.4 \<and>
         fst (setInputDistributionsViaUxHwCall draw inputDistributions s)
                  ! kInputDistributionIndexVsupply \<noteq> 0"
proof -
  obtain vrh s1 where d1: "draw 2.3 2.7 s = (vrh, s1)" by (cases "draw 2.3 2.7 s")
  obtain vt s2 where d2: "draw 2.3 2.7 s1 = (vt, s2)" by (cases "draw 2.3 2.7 s1")
  obtain vs s3 where d3: "draw 4.8 5.4 s2 = (vs, s3)" by (cases "draw 4.8 5.4 s2")
  have r1: "2.3 \<le> vrh \<and> vrh \<le> 2.7"
    using contract [rule_format, of "2.3" "2.7" s] d1 by simp
  have r2: "2.3 \<le> vt \<and> vt \<le> 2.7"
    using contract [rule_format, of "2.3" "2.7" s1] d2 by simp
  have r3: "4.8 \<le> vs \<and> vs \<le> 5.4"
    using contract [rule_format, of "4.8" "5.4" s2] d3 by simp
  have res: "fst (setInputDistributionsViaUxHwCall draw inputDistributions s) =
        inputDistributions[0 := vrh, 1 := vt, 2 := vs]"
    using d1 d2 d3 by (simp add: setInputDistributionsViaUxHwCall_def config_defs)
  from len have l3: "length inputDistributions = 3"
    by (simp add: kInputDistributionIndexMax_def)
  show ?thesis
    using r1 r2 r3 l3 unfolding res
    by (simp add: kInputDistributionIndexVrh_def kInputDistributionIndexVt_def
        kInputDistributionIndexVsupply_def)
qed

lemma quarterStepUniformDist_contract:
  "\<forall>lo hi s. lo < hi \<longrightarrow> lo \<le> fst (quarterStepUniformDist lo hi s) \<and>
      fst (quarterStepUniformDist lo hi s) \<le> hi"
proof (intro allI impI)
  fix lo hi :: real and s :: nat
  assume lt: "lo < hi"
  have "s mod 4 < 4" by simp
  then have t: "0 \<le> real (s mod 4) / 4" "real (s mod 4) / 4 \<le> 1" by simp_all
  have "0 \<le> (hi - lo) * (real (s mod 4) / 4)"
    using lt t by simp
  moreover have "(hi - lo) * (real (s mod 4) / 4) \<le> (hi - lo) * 1"
    using lt t by (intro mult_left_mono) simp_all
  ultimately show "lo \<le> fst (quarterStepUniformDist lo hi s) \<and>
      fst (quarterStepUniformDist lo hi s) \<le> hi"
    by (simp add: quarterStepUniformDist_def)
qed

theorem setInputDistributionsViaUxHwCall_within_ranges_witness:
  "2.3 \<le> fst (setInputDistributionsViaUxHwCall quarterStepUniformDist [0, 0, 0] 0) ! 0 \<and>
   fst (setInputDistributionsViaUxHwCall quarterStepUniformDist [0, 0, 0] 0) ! 0 \<le> 2.7 \<and>
   2.3 \<le> fst (setInputDistributionsViaUxHwCall quarterStepUniformDist [0, 0, 0] 0) ! 1 \<and>
   fst (setInputDistributionsViaUxHwCall quarterStepUniformDist [0, 0, 0] 0) ! 1 \<le> 2.7 \<and>
   4.8 \<le> fst (setInputDistributionsViaUxHwCall quarterStepUniformDist [0, 0, 0] 0) ! 2 \<and>
   fst (setInputDistributionsViaUxHwCall quarterStepUniformDist [0, 0, 0] 0) ! 2 \<le> 5.4 \<and>
   fst (setInputDistributionsViaUxHwCall quarterStepUniformDist [0, 0, 0] 0) ! 2 \<noteq> 0"
proof -
  have l3: "length [0::real, 0, 0] = kInputDistributionIndexMax"
    by (simp add: kInputDistributionIndexMax_def)
  show ?thesis
    using setInputDistributionsViaUxHwCall_within_ranges
            [OF quarterStepUniformDist_contract l3, of 0]
    by (simp add: kInputDistributionIndexVrh_def kInputDistributionIndexVt_def
        kInputDistributionIndexVsupply_def)
qed

section \<open>Properties of the argument processing\<close>

lemma getCommandLineArguments_parsed:
  assumes "parseArgs argv (common setDefaultCommandLineArguments) = (status, parsed)"
  shows "getCommandLineArguments parseArgs argv (Some a) =
     (if status \<noteq> 0 then
        (Return kCommonConstantReturnTypeError, [ParsingFailed, Usage], Some \<lparr>common = parsed\<rparr>)
      else if isHelpEnabled parsed then (Exit 0, [Usage], Some \<lparr>common = parsed\<rparr>)
      else if isInputFromFileEnabled parsed then
        (Return kCommonConstantReturnTypeError, [InputFromFileNotSupported],
         Some \<lparr>common = parsed\<rparr>)
      else if isWriteToFileEnabled parsed \<and> isMonteCarloMode parsed then
        (Return kCommonConstantReturnTypeError, [WriteToFileNotSupportedInMonteCarloMode],
         Some \<lparr>common = parsed\<rparr>)
      else if isOutputSelected parsed \<and> outputSelect parsed > kOutputDistributionIndexMax then
        (Return kCommonConstantReturnTypeSuccess,
         [OutputSelectGreaterThanMax (outputSelect parsed) kOutputDistributionIndexMax],
         Some \<lparr>common = parsed\<rparr>)
      else if (\<not> isOutputSelected parsed \<or> outputSelect parsed = kOutputDistributionIndexMax) \<and>
              (isBenchmarkingMode parsed \<or> isMonteCarloMode parsed) then
        (Return kCommonConstantReturnTypeError, [SelectSingleOutput],
         Some \<lparr>common = (if isOutputSelected parsed then parsed
                          else parsed\<lparr>outputSelect := kOutputDistributionIndexMax\<rparr>)\<rparr>)
      else
        (Return kCommonConstantReturnTypeSuccess, [],
         Some \<lparr>common = (if isOutputSelected parsed then parsed
                          else parsed\<lparr>outputSelect := kOutputDistributionIndexMax\<rparr>)\<rparr>))"
  using assms by (simp add: getCommandLineArguments_def Let_def)

text \<open>
  C5, as stated, fails: with the help flag set, a command line that leaves the selector at
  "all" and asks for benchmarking mode is not rejected. The usage text is printed and the
  process exits with status \<open>0\<close>, because the help flag is tested before the modes are.
\<close>

theorem help_with_benchmarking_exits_successfully:
  "getCommandLineArguments
     (parsedAs 0 ((common setDefaultCommandLineArguments)
        \<lparr>isHelpEnabled := True, isBenchmarkingMode := True\<rparr>))
     [] (Some setDefaultCommandLineArguments) =
   (Exit 0, [Usage],
    Some \<lparr>common = (common setDefaultCommandLineArguments)
        \<lparr>isHelpEnabled := True, isBenchmarkingMode := True\<rparr>\<rparr>) \<and>
   \<not> isOutputSelected ((common setDefaultCommandLineArguments)
        \<lparr>isHelpEnabled := True, isBenchmarkingMode := True\<rparr>)"
  by (simp add: getCommandLineArguments_def parsedAs_def setDefaultCommandLineArguments_def)

text \<open>
  C5, amended. Unless the command line parses and sets the help flag, argument processing
  returns the error code, after printing a diagnostic, for every combination of the
  selector "all" (chosen or by default) with benchmarking mode or Monte Carlo mode, and
  for every combination of writing to an output file with Monte Carlo mode; \<^verbatim>\<open>main\<close>
  then returns the error code before it allocates, samples or calibrates anything.
\<close>

theorem getCommandLineArguments_rejects_incompatible_modes:
  assumes parsed: "parseArgs argv (common setDefaultCommandLineArguments) = (status, parsed)"
    and nohelp: "status \<noteq> 0 \<or> \<not> isHelpEnabled parsed"
    and clash:
      "((\<not> isOutputSelected parsed \<or> outputSelect parsed = kOutputDistributionIndexMax) \<and>
        (isBenchmarkingMode parsed \<or> isMonteCarloMode parsed)) \<or>
       (isWriteToFileEnabled parsed \<and> isMonteCarloMode parsed)"
  shows "fst (getCommandLineArguments parseArgs argv (Some setDefaultCommandLineArguments)) =
           Return kCommonConstantReturnTypeError \<and>
         fst (snd (getCommandLineArguments parseArgs argv
                     (Some setDefaultCommandLineArguments))) \<noteq> [] \<and>
         fst (mainComputation parseArgs draw memoryAvailable indeterminate argv s0) =
           ReturnedError"
proof -
  have "getCommandLineArguments parseArgs argv (Some setDefaultCommandLineArguments) =
         (Return kCommonConstantReturnTypeError,
          snd (getCommandLineArguments parseArgs argv (Some setDefaultCommandLineArguments))) \<and>
        fst (snd (getCommandLineArguments parseArgs argv
                     (Some setDefaultCommandLineArguments))) \<noteq> []"
    using nohelp clash
    by (auto simp add: getCommandLineArguments_parsed
          [where parseArgs = parseArgs and argv = argv, OF parsed])
  then show ?thesis
    by (auto simp add: mainComputation_def split: prod.splits)
qed

theorem getCommandLineArguments_rejects_incompatible_modes_witness:
  "fst (getCommandLineArguments
          (parsedAs 0 ((common setDefaultCommandLineArguments)\<lparr>isBenchmarkingMode := True\<rparr>))
          [] (Some setDefaultCommandLineArguments)) =
     Return kCommonConstantReturnTypeError \<and>
   fst (snd (getCommandLineArguments
          (parsedAs 0 ((common setDefaultCommandLineArguments)\<lparr>isBenchmarkingMode := True\<rparr>))
          [] (Some setDefaultCommandLineArguments))) \<noteq> [] \<and>
   fst (mainComputation
          (parsedAs 0 ((common setDefaultCommandLineArguments)\<lparr>isBenchmarkingMode := True\<rparr>))
          quarterStepUniformDist True zeroFilled [] 0) = ReturnedError \<and>
   fst (getCommandLineArguments
          (parsedAs 0 ((common setDefaultCommandLineArguments)
             \<lparr>isWriteToFileEnabled := True, isMonteCarloMode := True,
              isOutputSelected := True, outputSelect := 0\<rparr>))
          [] (Some setDefaultCommandLineArguments)) =
     Return kCommonConstantReturnTypeError"
proof -
  let ?b = "(common setDefaultCommandLineArguments)\<lparr>isBenchmarkingMode := True\<rparr>"
  let ?w = "(common setDefaultCommandLineArguments)
             \<lparr>isWriteToFileEnabled := True, isMonteCarloMode := True,
              isOutputSelected := True, outputSelect := 0\<rparr>"
  have pb: "parsedAs 0 ?b [] (common setDefaultCommandLineArguments) = (0, ?b)"
    by (simp add: parsedAs_def)
  have hb: "(0::int) \<noteq> 0 \<or> \<not> isHelpEnabled ?b"
    by (simp add: setDefaultCommandLineArguments_def)
  have cb: "((\<not> isOutputSelected ?b \<or> outputSelect ?b = kOutputDistributionIndexMax) \<and>
        (isBenchmarkingMode ?b \<or> isMonteCarloMode ?b)) \<or>
       (isWriteToFileEnabled ?b \<and> isMonteCarloMode ?b)"
    by (simp add: setDefaultCommandLineArguments_def)
  have pw: "parsedAs 0 ?w [] (common setDefaultCommandLineArguments) = (0, ?w)"
    by (simp add: parsedAs_def)
  have hw: "(0::int) \<noteq> 0 \<or> \<not> isHelpEnabled ?w"
    by (simp add: setDefaultCommandLineArguments_def)
  have cw: "((\<not> isOutputSelected ?w \<or> outputSelect ?w = kOutputDistributionIndexMax) \<and>
        (isBenchmarkingMode ?w \<or> isMonteCarloMode ?w)) \<or>
       (isWriteToFileEnabled ?w \<and> isMonteCarloMode ?w)"
    by (simp add: setDefaultCommandLineArguments_def)
  show ?thesis
    using getCommandLineArguments_rejects_incompatible_modes
            [where parseArgs = "parsedAs 0 ?b" and argv = "[]", OF pb hb cb,
             of quarterStepUniformDist True zeroFilled 0]
          getCommandLineArguments_rejects_incompatible_modes
            [where parseArgs = "parsedAs 0 ?w" and argv = "[]", OF pw hw cw,
             of quarterStepUniformDist True zeroFilled 0]
    by simp
qed

lemma mainLoop_stop:
  "\<not> i < numberOfMonteCarloIterations (common arguments) \<Longrightarrow>
     mainLoop draw arguments i st = Inr st"
  by (subst mainLoop.simps) simp

lemma mainLoop_step:
  "i < numberOfMonteCarloIterations (common arguments) \<Longrightarrow>
     mainLoop draw arguments i st =
       (case mainLoopBody draw arguments i st of
          Inl e \<Rightarrow> Inl e
        | Inr st' \<Rightarrow> mainLoop draw arguments (i + 1) st')"
  by (subst mainLoop.simps) simp

text \<open>
  C6. An output-select value greater than the number of outputs is meant to be rejected:
  the message is printed, but the branch has no \<^verbatim>\<open>return\<close>, so the call reports
  success. With \<^verbatim>\<open>-S 4\<close> and one iteration \<^verbatim>\<open>main\<close> goes on to sample and to call the
  calibration function, which stores nothing and returns \<open>0\<close>.
\<close>

theorem outputSelect_greater_than_max_is_accepted:
  "getCommandLineArguments
     (parsedAs 0 ((common (selecting 4))\<lparr>numberOfMonteCarloIterations := 1\<rparr>))
     [] (Some setDefaultCommandLineArguments) =
   (Return kCommonConstantReturnTypeSuccess, [OutputSelectGreaterThanMax 4 3],
    Some \<lparr>common = (common (selecting 4))\<lparr>numberOfMonteCarloIterations := 1\<rparr>\<rparr>) \<and>
   mainComputation
     (parsedAs 0 ((common (selecting 4))\<lparr>numberOfMonteCarloIterations := 1\<rparr>))
     quarterStepUniformDist True zeroFilled [] 0 =
   (LoopCompleted \<lparr>common = (common (selecting 4))\<lparr>numberOfMonteCarloIterations := 1\<rparr>\<rparr>
      \<lparr>uxhwState = 3,
       mainInputDistributions = [2.3, 2.4, 5.1],
       mainOutputDistributions = [0, 0, 0],
       mainCalibratedSensorOutput = 0,
       mainMonteCarloOutputSamples = None\<rparr>,
    [OutputSelectGreaterThanMax 4 3])"
proof -
  let ?c = "(common (selecting 4))\<lparr>numberOfMonteCarloIterations := 1\<rparr>"
  have g: "getCommandLineArguments (parsedAs 0 ?c) [] (Some setDefaultCommandLineArguments) =
     (Return kCommonConstantReturnTypeSuccess, [OutputSelectGreaterThanMax 4 3],
      Some \<lparr>common = ?c\<rparr>)"
    by (simp add: getCommandLineArguments_def parsedAs_def selecting_def
        setDefaultCommandLineArguments_def kOutputDistributionIndexMax_def)
  have init: "mainInitialState zeroFilled (0::nat) None =
      \<lparr>uxhwState = 0, mainInputDistributions = [0, 0, 0], mainOutputDistributions = [0, 0, 0],
       mainCalibratedSensorOutput = 0, mainMonteCarloOutputSamples = None\<rparr>"
    by (simp add: mainInitialState_def zeroFilled_def kInputDistributionIndexMax_def
        kOutputDistributionIndexMax_def upt_rec numeral_3_eq_3)
  have s: "setInputDistributionsViaUxHwCall quarterStepUniformDist [0, 0, 0] 0 =
      ([2.3, 2.4, 5.1], 3)"
    by (simp add: setInputDistributionsViaUxHwCall_def quarterStepUniformDist_def config_defs)
  have c: "calculateSensorOutput a ins outs =
      \<lparr>calibratedValue = 0, outputArray = outs, storeLog = []\<rparr>"
    if "outputSelect (common a) = 4" for a ins outs
    using that by (simp add: calculateSensorOutput_cases Let_def)
  have mc: "\<not> isMonteCarloMode ?c" "numberOfMonteCarloIterations ?c = 1"
    by (simp_all add: selecting_def setDefaultCommandLineArguments_def)
  have body: "mainLoopBody quarterStepUniformDist \<lparr>common = ?c\<rparr> 0
       (mainInitialState zeroFilled (0::nat) None) =
      Inr \<lparr>uxhwState = 3, mainInputDistributions = [2.3, 2.4, 5.1],
       mainOutputDistributions = [0, 0, 0], mainCalibratedSensorOutput = 0,
       mainMonteCarloOutputSamples = None\<rparr>"
    unfolding init
    by (simp add: mainLoopBody_def s c Let_def outputSelect_selecting)
      (simp add: selecting_def setDefaultCommandLineArguments_def)
  have loop: "mainLoop quarterStepUniformDist \<lparr>common = ?c\<rparr> 0
       (mainInitialState zeroFilled (0::nat) None) =
      Inr \<lparr>uxhwState = 3, mainInputDistributions = [2.3, 2.4, 5.1],
       mainOutputDistributions = [0, 0, 0], mainCalibratedSensorOutput = 0,
       mainMonteCarloOutputSamples = None\<rparr>"
    using mc(2) by (simp add: mainLoop_step mainLoop_stop body del: One_nat_def)
  show ?thesis
    using g loop mc(1) by (simp add: mainComputation_def)
qed

section \<open>Properties of the Monte Carlo driver\<close>















section \<open>Properties of the statistics aggregator\<close>

text \<open>
  The aggregator is stated over exact reals. What its variance does under rounding
  (cancellation, overflow to an infinity, NaN) lies outside this reading of
  \<^verbatim>\<open>double\<close>, so C3 has no theorem here.
\<close>

lemma accumulateSum_eq: "accumulateSum xs acc = acc + sum_list xs"
  by (induction xs arbitrary: acc) simp_all

lemma accumulateSquaredDeviations_eq:
  "accumulateSquaredDeviations m xs acc = acc + sum_list (map (\<lambda>x. (x - m)\<^sup>2) xs)"
  by (induction xs arbitrary: acc) (simp_all add: power2_eq_square)

text \<open>
  C2. For a buffer that is not empty the aggregator returns the arithmetic average of the
  samples as mean and their population variance (the squared deviations from the mean,
  summed and divided by the number of samples) as variance; for a buffer of one sample
  the variance is \<open>0\<close>, whatever the sample.
\<close>

theorem calculateMeanAndVarianceOfDoubleSamples_mean_and_population_variance:
  "(dataArray \<noteq> [] \<longrightarrow>
      calculateMeanAndVarianceOfDoubleSamples dataArray =
        Inr \<lparr>mean = arithmeticAverage dataArray, variance = populationVariance dataArray\<rparr>) \<and>
   calculateMeanAndVarianceOfDoubleSamples [x] = Inr \<lparr>mean = x, variance = 0\<rparr>"
  by (simp add: calculateMeanAndVarianceOfDoubleSamples_def Let_def accumulateSum_eq
      accumulateSquaredDeviations_eq arithmeticAverage_def populationVariance_def)

theorem calculateMeanAndVarianceOfDoubleSamples_mean_and_population_variance_witness:
  "calculateMeanAndVarianceOfDoubleSamples [1, 2, 3, 6] = Inr \<lparr>mean = 3, variance = 7 / 2\<rparr>"
proof -
  have ne: "[1, 2, 3, 6 :: real] \<noteq> []" by simp
  have "calculateMeanAndVarianceOfDoubleSamples [1, 2, 3, 6] =
        Inr \<lparr>mean = arithmeticAverage [1, 2, 3, 6],
             variance = populationVariance [1, 2, 3, 6]\<rparr>"
    using calculateMeanAndVarianceOfDoubleSamples_mean_and_population_variance
            [of "[1, 2, 3, 6]" 0] ne by simp
  then show ?thesis
    by (simp add: arithmeticAverage_def populationVariance_def)
qed

text \<open>
  C7. The aggregator rejects the empty buffer with an error, before any division; it
  returns no mean and variance for it.
\<close>

theorem calculateMeanAndVarianceOfDoubleSamples_rejects_empty_buffer:
  "calculateMeanAndVarianceOfDoubleSamples [] = Inl EmptySampleBuffer \<and>
   (\<forall>result. calculateMeanAndVarianceOfDoubleSamples [] \<noteq> Inr result)"
  by (simp add: calculateMeanAndVarianceOfDoubleSamples_def)

end
